theory Spec2Isabelle
  imports Complex_Main
begin

section \<open>Data model\<close>

text \<open>
  The repository has two modules that talk to an Elasticsearch backend:
  \<^verbatim>\<open>elasticsearch_handler.py\<close> (class \<^verbatim>\<open>ElasticsearchHandler\<close>: index setup, bulk insert
  with embeddings, hybrid search, text analysis) and \<^verbatim>\<open>main.py\<close> (the REST search endpoint).
  Both are sequences of calls to external services (the Elasticsearch client and the
  embedding provider) wrapped in \<^verbatim>\<open>try/except\<close>.

  The embedding keeps that shape. A Python exception is a value of type \<open>exn\<close>; a call
  that may raise returns \<open>exn + 'a\<close> (\<open>Inl\<close> is the raised exception). The external
  services are an environment \<open>env\<close>: one response function per client method. Every
  function of the handler threads the history of calls issued so far (a \<open>call list\<close>), and
  each response function receives the history before its call, so a response may depend
  on everything the program did earlier (a stateful backend). The calls to \<^verbatim>\<open>logging\<close>
  neither change a value nor reach a backend and are left out.

  Python floats (scores, embedding components, the BM25 parameters) are read as reals;
  the program never computes with them, it stores, forwards and compares them. Python
  integers are \<open>int\<close>.
\<close>

type_synonym embedding = "real list"

type_synonym metadata = "(string \<times> string) list"

text \<open>
  \<open>Exception m\<close> is an exception whose \<^verbatim>\<open>str()\<close> is \<open>m\<close>; \<open>KeyError k\<close> is the exception of a
  dict lookup with the missing key \<open>k\<close>. \<open>HTTPException\<close> is what the REST handlers raise: a
  status code and a detail text.
\<close>

datatype exn = Exception string | KeyError string

datatype http_error = HTTPException int string

subsection \<open>Index settings and mappings (\<^verbatim>\<open>_create_index\<close>)\<close>

record tokenizer_def =
  tk_type :: string
  tk_user_dictionary :: "string option"
  tk_decompound_mode :: "string option"

record analyzer_def =
  an_type :: string
  an_tokenizer :: string
  an_filter :: "string list"

record filter_def =
  fl_type :: string
  fl_stoptags :: "string list"

record similarity_def =
  sim_type :: string
  sim_k1 :: real
  sim_b :: real

record analysis =
  tokenizer :: "(string \<times> tokenizer_def) list"
  analyzer :: "(string \<times> analyzer_def) list"
  token_filter :: "(string \<times> filter_def) list"

record settings =
  settings_analysis :: analysis
  settings_similarity :: "(string \<times> similarity_def) list"

datatype field_mapping =
    TextField string string
  | DenseVector int bool string
  | ObjectField bool

type_synonym mappings = "(string \<times> field_mapping) list"

subsection \<open>Search requests and responses\<close>

text \<open>
  A leaf clause of the query DSL, as the two modules build it:
  \<open>Match field query analyzer boost\<close> is \<^verbatim>\<open>{"match": {field: {"query", "analyzer", "boost"?}}}\<close>,
  \<open>MultiMatch query fields type fuzziness\<close> is \<^verbatim>\<open>{"multi_match": {...}}\<close>,
  \<open>Term field value\<close> is \<^verbatim>\<open>{"term": {field: value}}\<close>.
  A query is a leaf or a \<^verbatim>\<open>bool\<close> with its \<^verbatim>\<open>must\<close>, \<^verbatim>\<open>should\<close> and \<^verbatim>\<open>filter\<close> lists
  (a key that the dict does not have is the empty list).
\<close>

datatype leaf =
    Match string string string "real option"
  | MultiMatch string "string list" string string
  | Term string string

datatype query =
    Leaf leaf
  | Bool (bool_must: "leaf list") (bool_should: "leaf list") (bool_filter: "leaf list")

record knn_clause =
  knn_field :: string
  knn_query_vector :: embedding
  knn_k :: int
  knn_num_candidates :: int
  knn_boost :: "real option"

text \<open>The request body: each of the keys \<^verbatim>\<open>query\<close>, \<^verbatim>\<open>knn\<close>, \<^verbatim>\<open>size\<close> may be absent.\<close>

record search_body =
  body_query :: "query option"
  body_knn :: "knn_clause option"
  body_size :: "int option"
  body_source :: "string list"

text \<open>
  A hit of the response. \<^verbatim>\<open>_source\<close> holds the stored fields that were asked for; a field
  that the stored document lacks is \<open>None\<close> (Python: the key is missing).
\<close>

record source_doc =
  src_title :: "string option"
  src_content :: "string option"
  src_category :: "string option"
  src_metadata :: "metadata option"

record hit =
  hit_id :: string
  hit_score :: real
  hit_source :: source_doc

record response =
  resp_total :: int
  resp_hits :: "hit list"
  resp_took :: int

text \<open>One entry of the list that \<^verbatim>\<open>search_similar\<close> returns (a dict with these four keys).\<close>

record search_result =
  res_id :: string
  res_score :: real
  res_content :: "string option"
  res_metadata :: "metadata option"

text \<open>One bulk action: \<^verbatim>\<open>{"_index": ..., "_source": {"content", "embedding", "metadata"}}\<close>.\<close>

record action =
  act_index :: string
  act_content :: string
  act_embedding :: embedding
  act_metadata :: metadata

subsection \<open>The external services\<close>

datatype call =
    IndicesExists string
  | IndicesCreate string settings mappings
  | EmbedDocuments "string list"
  | EmbedQuery string
  | BulkWrite "action list"
  | IndicesRefresh string
  | Search string search_body
  | IndicesAnalyze string string string

record env =
  indices_exists :: "call list \<Rightarrow> string \<Rightarrow> exn + bool"
  indices_create :: "call list \<Rightarrow> string \<Rightarrow> settings \<Rightarrow> mappings \<Rightarrow> exn + unit"
  embed_documents :: "call list \<Rightarrow> string list \<Rightarrow> exn + embedding list"
  embed_query :: "call list \<Rightarrow> string \<Rightarrow> exn + embedding"
  bulk :: "call list \<Rightarrow> action list \<Rightarrow> exn + (int \<times> string list)"
  indices_refresh :: "call list \<Rightarrow> string \<Rightarrow> exn + unit"
  search :: "call list \<Rightarrow> string \<Rightarrow> search_body \<Rightarrow> exn + response"
  indices_analyze :: "call list \<Rightarrow> string \<Rightarrow> string \<Rightarrow> string \<Rightarrow> exn + string list"

text \<open>The fields of \<^verbatim>\<open>self\<close> that the methods read.\<close>

record handler =
  index_name :: string
  embedding_dim :: int

section \<open>\<^verbatim>\<open>elasticsearch_handler.py\<close>\<close>

subsection \<open>\<^verbatim>\<open>_create_index\<close> and \<^verbatim>\<open>_setup_index\<close>\<close>

definition create_index_settings :: settings where
  "create_index_settings =
     \<lparr>settings_analysis =
        \<lparr>tokenizer =
           [(''nori_user_dict'',
             \<lparr>tk_type = ''nori_tokenizer'',
              tk_user_dictionary = Some ''userdict_ko.txt'',
              tk_decompound_mode = Some ''mixed''\<rparr>)],
         analyzer =
           [(''nori_analyzer'',
             \<lparr>an_type = ''custom'',
              an_tokenizer = ''nori_tokenizer'',
              an_filter = [''lowercase'', ''nori_part_of_speech'', ''nori_readingform'']\<rparr>)],
         token_filter =
           [(''nori_part_of_speech'',
             \<lparr>fl_type = ''nori_part_of_speech'',
              fl_stoptags = [''E'', ''IC'', ''J'', ''MAG'', ''MAJ'', ''MM'', ''SP'', ''SSC'',
                ''SSO'', ''SC'', ''SE'', ''XPN'', ''XSA'', ''XSN'', ''XSV'', ''UNA'', ''NA'',
                ''VSV'']\<rparr>)]\<rparr>,
      settings_similarity =
        [(''bm25_korean'', \<lparr>sim_type = ''BM25'', sim_k1 = 1.2, sim_b = 0.75\<rparr>)]\<rparr>"

definition create_index_mappings :: "handler \<Rightarrow> mappings" where
  "create_index_mappings h =
     [(''content'', TextField ''nori_analyzer'' ''bm25_korean''),
      (''embedding'', DenseVector (embedding_dim h) True ''cosine''),
      (''metadata'', ObjectField True)]"

text \<open>
  \<^verbatim>\<open>_create_index\<close>: one \<^verbatim>\<open>indices.create\<close> call; the \<^verbatim>\<open>except\<close> branch logs and re-raises.
\<close>

definition create_index :: "env \<Rightarrow> handler \<Rightarrow> call list \<Rightarrow> (exn + unit) \<times> call list" where
  "create_index ev h tr =
     (let tr1 = tr @ [IndicesCreate (index_name h) create_index_settings (create_index_mappings h)]
      in case indices_create ev tr (index_name h) create_index_settings (create_index_mappings h) of
           Inl e \<Rightarrow> (Inl e, tr1)
         | Inr u \<Rightarrow> (Inr (), tr1))"

text \<open>
  \<^verbatim>\<open>_setup_index\<close>: asks whether the index exists; creates it only in the \<^verbatim>\<open>else\<close> branch;
  the \<^verbatim>\<open>except\<close> branch logs and re-raises.
\<close>

definition setup_index :: "env \<Rightarrow> handler \<Rightarrow> call list \<Rightarrow> (exn + unit) \<times> call list" where
  "setup_index ev h tr =
     (let tr1 = tr @ [IndicesExists (index_name h)]
      in case indices_exists ev tr (index_name h) of
           Inl e \<Rightarrow> (Inl e, tr1)
         | Inr ex \<Rightarrow> (if ex then (Inr (), tr1) else create_index ev h tr1))"

subsection \<open>\<^verbatim>\<open>insert_embeddings\<close>\<close>

text \<open>
  The body of the \<^verbatim>\<open>try\<close>: one batched embedding call for all contents, the actions built
  from \<^verbatim>\<open>zip(contents, embeddings, metadata_list)\<close> (which stops at the shortest list), the
  bulk write, the refresh, then \<^verbatim>\<open>return True\<close>. The first call that raises ends the body.
\<close>

definition insert_embeddings_actions ::
  "handler \<Rightarrow> string list \<Rightarrow> embedding list \<Rightarrow> metadata list \<Rightarrow> action list" where
  "insert_embeddings_actions h contents embeddings metadata_list =
     map (\<lambda>(content, emb, md).
            \<lparr>act_index = index_name h, act_content = content, act_embedding = emb,
             act_metadata = md\<rparr>)
         (zip contents (zip embeddings metadata_list))"

definition insert_embeddings_try ::
  "env \<Rightarrow> handler \<Rightarrow> string list \<Rightarrow> metadata list \<Rightarrow> call list \<Rightarrow> (exn + bool) \<times> call list" where
  "insert_embeddings_try ev h contents metadata_list tr =
     (let tr1 = tr @ [EmbedDocuments contents]
      in case embed_documents ev tr contents of
           Inl e \<Rightarrow> (Inl e, tr1)
         | Inr embeddings \<Rightarrow>
             (let actions = insert_embeddings_actions h contents embeddings metadata_list;
                  tr2 = tr1 @ [BulkWrite actions]
              in case bulk ev tr1 actions of
                   Inl e \<Rightarrow> (Inl e, tr2)
                 | Inr sf \<Rightarrow>
                     (let tr3 = tr2 @ [IndicesRefresh (index_name h)]
                      in case indices_refresh ev tr2 (index_name h) of
                           Inl e \<Rightarrow> (Inl e, tr3)
                         | Inr u \<Rightarrow> (Inr True, tr3))))"

text \<open>\<^verbatim>\<open>except Exception as e: ...; return False\<close>.\<close>

definition insert_embeddings ::
  "env \<Rightarrow> handler \<Rightarrow> string list \<Rightarrow> metadata list \<Rightarrow> call list \<Rightarrow> (exn + bool) \<times> call list" where
  "insert_embeddings ev h contents metadata_list tr =
     (case insert_embeddings_try ev h contents metadata_list tr of
        (Inl e, tr') \<Rightarrow> (Inr False, tr')
      | (Inr b, tr') \<Rightarrow> (Inr b, tr'))"

subsection \<open>\<^verbatim>\<open>search_similar\<close>\<close>

text \<open>The request built by the \<^verbatim>\<open>if / elif / else\<close> on \<^verbatim>\<open>search_type\<close>.\<close>

definition search_similar_query :: "string \<Rightarrow> embedding \<Rightarrow> int \<Rightarrow> string \<Rightarrow> search_body" where
  "search_similar_query query_text query_embedding top_k search_type =
     (if search_type = ''vector'' then
        \<lparr>body_query = None,
         body_knn = Some \<lparr>knn_field = ''embedding'', knn_query_vector = query_embedding,
                          knn_k = top_k, knn_num_candidates = top_k * 10, knn_boost = None\<rparr>,
         body_size = None,
         body_source = [''content'', ''metadata'']\<rparr>
      else if search_type = ''bm25'' then
        \<lparr>body_query = Some (Leaf (Match ''content'' query_text ''nori_analyzer'' None)),
         body_knn = None,
         body_size = Some top_k,
         body_source = [''content'', ''metadata'']\<rparr>
      else
        \<lparr>body_query = Some (Bool [] [Match ''content'' query_text ''nori_analyzer'' (Some 1.0)] []),
         body_knn = Some \<lparr>knn_field = ''embedding'', knn_query_vector = query_embedding,
                          knn_k = top_k, knn_num_candidates = top_k * 10, knn_boost = Some 1.0\<rparr>,
         body_size = Some top_k,
         body_source = [''content'', ''metadata'']\<rparr>)"

definition result_of_hit :: "hit \<Rightarrow> search_result" where
  "result_of_hit ht =
     \<lparr>res_id = hit_id ht, res_score = hit_score ht,
      res_content = src_content (hit_source ht),
      res_metadata = src_metadata (hit_source ht)\<rparr>"

text \<open>
  \<^verbatim>\<open>list.sort(key=..., reverse=True)\<close>: CPython reverses the list, sorts it with its stable
  ascending sort, and reverses the result.
\<close>

definition sort_reverse :: "('a \<Rightarrow> 'k::linorder) \<Rightarrow> 'a list \<Rightarrow> 'a list" where
  "sort_reverse key xs = rev (sort_key key (rev xs))"

definition search_similar_try ::
  "env \<Rightarrow> handler \<Rightarrow> string \<Rightarrow> int \<Rightarrow> string \<Rightarrow> call list
     \<Rightarrow> (exn + search_result list) \<times> call list" where
  "search_similar_try ev h query_text top_k search_type tr =
     (let tr1 = tr @ [EmbedQuery query_text]
      in case embed_query ev tr query_text of
           Inl e \<Rightarrow> (Inl e, tr1)
         | Inr query_embedding \<Rightarrow>
             (let q = search_similar_query query_text query_embedding top_k search_type;
                  tr2 = tr1 @ [Search (index_name h) q]
              in case search ev tr1 (index_name h) q of
                   Inl e \<Rightarrow> (Inl e, tr2)
                 | Inr resp \<Rightarrow>
                     (Inr (sort_reverse res_score (map result_of_hit (resp_hits resp))), tr2)))"

text \<open>\<^verbatim>\<open>except Exception as e: ...; return []\<close>.\<close>

definition search_similar ::
  "env \<Rightarrow> handler \<Rightarrow> string \<Rightarrow> int \<Rightarrow> string \<Rightarrow> call list
     \<Rightarrow> (exn + search_result list) \<times> call list" where
  "search_similar ev h query_text top_k search_type tr =
     (case search_similar_try ev h query_text top_k search_type tr of
        (Inl e, tr') \<Rightarrow> (Inr [], tr')
      | (Inr rs, tr') \<Rightarrow> (Inr rs, tr'))"

subsection \<open>\<^verbatim>\<open>analyze_text\<close>\<close>




section \<open>\<^verbatim>\<open>main.py\<close>: the search endpoint\<close>

record search_query =
  sq_query :: string
  sq_size :: "int option"
  sq_category :: "string option"

text \<open>The pydantic models \<^verbatim>\<open>SearchResult\<close> and \<^verbatim>\<open>SearchResponse\<close>.\<close>

record api_result =
  sr_id :: string
  sr_title :: string
  sr_content :: string
  sr_category :: "string option"
  sr_score :: real

record search_response =
  total :: int
  results :: "api_result list"
  took :: int

definition INDEX_NAME :: string where
  "INDEX_NAME = ''documents''"

text \<open>
  The \<^verbatim>\<open>bool\<close> query of \<^verbatim>\<open>search_documents\<close>: the \<^verbatim>\<open>multi_match\<close> clause under \<^verbatim>\<open>must\<close>, and,
  when \<^verbatim>\<open>if search_query.category:\<close> holds, the \<^verbatim>\<open>term\<close> clause under \<^verbatim>\<open>filter\<close>. Python's
  truth test on an optional string is false for \<^verbatim>\<open>None\<close> and for the empty string.
\<close>

definition search_documents_query :: "search_query \<Rightarrow> query" where
  "search_documents_query sq =
     Bool [MultiMatch (sq_query sq) [''title^2'', ''content''] ''best_fields'' ''AUTO'']
          []
          (case sq_category sq of
             None \<Rightarrow> []
           | Some c \<Rightarrow> (if c = [] then [] else [Term ''category'' c]))"

definition search_documents_body :: "search_query \<Rightarrow> search_body" where
  "search_documents_body sq =
     \<lparr>body_query = Some (search_documents_query sq),
      body_knn = None,
      body_size = sq_size sq,
      body_source = [''title'', ''content'', ''category'']\<rparr>"

text \<open>
  The loop over the hits: \<^verbatim>\<open>hit["_source"]["title"]\<close> and \<^verbatim>\<open>["content"]\<close> raise \<^verbatim>\<open>KeyError\<close>
  when the key is missing, \<^verbatim>\<open>.get("category")\<close> does not.
\<close>

fun parse_hits :: "hit list \<Rightarrow> exn + api_result list" where
  "parse_hits [] = Inr []"
| "parse_hits (ht # hts) =
     (case src_title (hit_source ht) of
        None \<Rightarrow> Inl (KeyError ''title'')
      | Some t \<Rightarrow>
          (case src_content (hit_source ht) of
             None \<Rightarrow> Inl (KeyError ''content'')
           | Some c \<Rightarrow>
               (case parse_hits hts of
                  Inl e \<Rightarrow> Inl e
                | Inr rs \<Rightarrow>
                    Inr (\<lparr>sr_id = hit_id ht, sr_title = t, sr_content = c,
                          sr_category = src_category (hit_source ht),
                          sr_score = hit_score ht\<rparr> # rs))))"

text \<open>
  \<^verbatim>\<open>str(e)\<close>: the message of an exception; for a \<^verbatim>\<open>KeyError\<close>, the \<^verbatim>\<open>repr\<close> of the missing key,
  that is the key between single quotes (the keys looked up here hold no quote or escape).
\<close>

fun exn_str :: "exn \<Rightarrow> string" where
  "exn_str (Exception m) = m"
| "exn_str (KeyError k) = CHR 0x27 # k @ [CHR 0x27]"

text \<open>
  The fixed prefix of the detail text of \<^verbatim>\<open>search_documents\<close>, a Korean phrase followed by a
  colon and a space, as its UTF-8 bytes.
\<close>

definition search_failed_prefix :: string where
  "search_failed_prefix =
     [CHR 0xEA, CHR 0xB2, CHR 0x80, CHR 0xEC, CHR 0x83, CHR 0x89, CHR 0x20,
      CHR 0xEC, CHR 0x8B, CHR 0xA4, CHR 0xED, CHR 0x8C, CHR 0xA8, CHR 0x3A, CHR 0x20]"

text \<open>
  \<^verbatim>\<open>search_documents\<close>: any exception of the body becomes \<^verbatim>\<open>HTTPException(500)\<close>, whose
  detail is the prefix followed by \<^verbatim>\<open>str(e)\<close>.
\<close>

definition search_documents ::
  "env \<Rightarrow> search_query \<Rightarrow> call list \<Rightarrow> (http_error + search_response) \<times> call list" where
  "search_documents ev sq tr =
     (let tr1 = tr @ [Search INDEX_NAME (search_documents_body sq)]
      in case search ev tr INDEX_NAME (search_documents_body sq) of
           Inl e \<Rightarrow> (Inl (HTTPException 500 (search_failed_prefix @ exn_str e)), tr1)
         | Inr resp \<Rightarrow>
             (case parse_hits (resp_hits resp) of
                Inl e \<Rightarrow> (Inl (HTTPException 500 (search_failed_prefix @ exn_str e)), tr1)
              | Inr rs \<Rightarrow>
                  (Inr \<lparr>total = resp_total resp, results = rs, took = resp_took resp\<rparr>, tr1)))"

section \<open>Reference semantics of the backend\<close>

text \<open>
  Two claims speak about what the backend does with a request. The backend is not part of
  the repository; what follows is its documented contract, as far as those claims need it.

  An analyzer of type \<^verbatim>\<open>custom\<close> names its tokenizer. The name is looked up among the
  tokenizers that the index settings declare; a name that is not declared there denotes the
  built-in tokenizer of that name with the backend's defaults, so none of the options
  written in the settings applies to it.
\<close>

definition analyzer_tokenizer_def :: "settings \<Rightarrow> string \<Rightarrow> tokenizer_def option" where
  "analyzer_tokenizer_def st name =
     (case map_of (analyzer (settings_analysis st)) name of
        None \<Rightarrow> None
      | Some a \<Rightarrow> map_of (tokenizer (settings_analysis st)) (an_tokenizer a))"

definition analyzer_decompound_mode :: "settings \<Rightarrow> string \<Rightarrow> string option" where
  "analyzer_decompound_mode st name =
     (case analyzer_tokenizer_def st name of
        None \<Rightarrow> None
      | Some t \<Rightarrow> tk_decompound_mode t)"

definition field_analyzer :: "mappings \<Rightarrow> string \<Rightarrow> string option" where
  "field_analyzer ms f =
     (case map_of ms f of
        Some (TextField a s) \<Rightarrow> Some a
      | _ \<Rightarrow> None)"

text \<open>
  A \<^verbatim>\<open>bool\<close> query: a document is a hit when every \<^verbatim>\<open>must\<close> clause and every \<^verbatim>\<open>filter\<close>
  clause matches it (and, when there is neither, some \<^verbatim>\<open>should\<close> clause does); its score is
  the sum of the scores of the \<^verbatim>\<open>must\<close> and \<^verbatim>\<open>should\<close> clauses, and the \<^verbatim>\<open>filter\<close> clauses do
  not enter it. How well a scoring clause matches a document is the backend's business:
  the parameter \<open>rel\<close> gives the score, or \<open>None\<close> when the clause does not match. A \<^verbatim>\<open>term\<close>
  clause in filter position matches when the keyword field holds exactly the value.
\<close>

type_synonym relevance = "leaf \<Rightarrow> source_doc \<Rightarrow> real option"

definition keyword_value :: "string \<Rightarrow> source_doc \<Rightarrow> string option" where
  "keyword_value f src = (if f = ''category'' then src_category src else None)"

definition filter_matches :: "relevance \<Rightarrow> leaf \<Rightarrow> source_doc \<Rightarrow> bool" where
  "filter_matches rel c src =
     (case c of
        Term f v \<Rightarrow> keyword_value f src = Some v
      | _ \<Rightarrow> rel c src \<noteq> None)"

definition clause_score :: "relevance \<Rightarrow> leaf \<Rightarrow> source_doc \<Rightarrow> real" where
  "clause_score rel c src = (case rel c src of None \<Rightarrow> 0 | Some s \<Rightarrow> s)"

definition query_matches :: "relevance \<Rightarrow> query \<Rightarrow> source_doc \<Rightarrow> bool" where
  "query_matches rel q src =
     (case q of
        Leaf c \<Rightarrow> rel c src \<noteq> None
      | Bool must should flt \<Rightarrow>
          list_all (\<lambda>c. rel c src \<noteq> None) must
          \<and> list_all (\<lambda>c. filter_matches rel c src) flt
          \<and> (if must = [] \<and> flt = [] then list_ex (\<lambda>c. rel c src \<noteq> None) should else True))"

definition query_score :: "relevance \<Rightarrow> query \<Rightarrow> source_doc \<Rightarrow> real" where
  "query_score rel q src =
     (case q of
        Leaf c \<Rightarrow> clause_score rel c src
      | Bool must should flt \<Rightarrow> sum_list (map (\<lambda>c. clause_score rel c src) (must @ should)))"

text \<open>The hits of a query over the stored documents (id and source), in index order.\<close>

definition matching_hits :: "relevance \<Rightarrow> (string \<times> source_doc) list \<Rightarrow> query \<Rightarrow> hit list" where
  "matching_hits rel docs q =
     map (\<lambda>(i, src). \<lparr>hit_id = i, hit_score = query_score rel q src, hit_source = src\<rparr>)
         (filter (\<lambda>(i, src). query_matches rel q src) docs)"

section \<open>Reading a call history\<close>

text \<open>The documents that a call hands to the bulk helper (none for any other call).\<close>

fun bulk_actions :: "call \<Rightarrow> action list" where
  "bulk_actions (BulkWrite acts) = acts"
| "bulk_actions c = []"

text \<open>Whether a call is the creation of the index of that name.\<close>

fun is_create_of :: "string \<Rightarrow> call \<Rightarrow> bool" where
  "is_create_of name (IndicesCreate n st ms) = (n = name)"
| "is_create_of name c = False"

section \<open>Sample environments\<close>

text \<open>
  A provider that embeds one document at a time: the batched call raises as soon as one
  document cannot be embedded, and returns one vector per document otherwise.
\<close>

fun embed_each :: "(string \<Rightarrow> exn + embedding) \<Rightarrow> string list \<Rightarrow> exn + embedding list" where
  "embed_each f [] = Inr []"
| "embed_each f (d # ds) =
     (case f d of
        Inl e \<Rightarrow> Inl e
      | Inr v \<Rightarrow> (case embed_each f ds of Inl e \<Rightarrow> Inl e | Inr vs \<Rightarrow> Inr (v # vs)))"

definition sample_embed :: "string \<Rightarrow> exn + embedding" where
  "sample_embed d =
     (if d = ''bad'' then Inl (Exception ''embedding failed'') else Inr [real (length d)])"

definition sample_source :: "string \<Rightarrow> string \<Rightarrow> source_doc" where
  "sample_source t cat =
     \<lparr>src_title = Some t, src_content = Some t, src_category = Some cat, src_metadata = None\<rparr>"

definition sample_hits :: "hit list" where
  "sample_hits =
     [\<lparr>hit_id = ''a'', hit_score = 1, hit_source = sample_source ''python'' ''programming''\<rparr>,
      \<lparr>hit_id = ''b'', hit_score = 2, hit_source = sample_source ''search'' ''database''\<rparr>,
      \<lparr>hit_id = ''c'', hit_score = 1, hit_source = sample_source ''web'' ''programming''\<rparr>,
      \<lparr>hit_id = ''d'', hit_score = 2, hit_source = sample_source ''bm25'' ''algorithm''\<rparr>]"

text \<open>
  A backend that works: an index exists once it was created, creating it twice is refused,
  every search answers with \<open>sample_hits\<close>. Its embedding provider fails on the document
  \<open>''bad''\<close> only.
\<close>

definition sample_env :: env where
  "sample_env =
     \<lparr>indices_exists = (\<lambda>tr name. Inr (list_ex (is_create_of name) tr)),
      indices_create = (\<lambda>tr name st ms.
         if list_ex (is_create_of name) tr
         then Inl (Exception ''resource_already_exists_exception'') else Inr ()),
      embed_documents = (\<lambda>tr ds. embed_each sample_embed ds),
      embed_query = (\<lambda>tr q. sample_embed q),
      bulk = (\<lambda>tr acts. Inr (int (length acts), [])),
      indices_refresh = (\<lambda>tr name. Inr ()),
      search = (\<lambda>tr name b. Inr \<lparr>resp_total = 4, resp_hits = sample_hits, resp_took = 1\<rparr>),
      indices_analyze = (\<lambda>tr name a txt. Inr [txt])\<rparr>"


definition sample_handler :: handler where
  "sample_handler = \<lparr>index_name = ''test_hybrid_search'', embedding_dim = 1536\<rparr>"

text \<open>A relevance function for the samples: a clause matches when the title is its query text.\<close>

fun sample_rel :: relevance where
  "sample_rel (MultiMatch q fs ty fz) src = (if src_title src = Some q then Some 3 else None)"
| "sample_rel (Match f q a b) src = (if src_content src = Some q then Some 1 else None)"
| "sample_rel (Term f v) src = (if keyword_value f src = Some v then Some 1 else None)"

definition sample_docs :: "(string \<times> source_doc) list" where
  "sample_docs =
     [(''doc1'', sample_source ''python'' ''programming''),
      (''doc4'', sample_source ''python'' ''ai''),
      (''doc3'', sample_source ''web'' ''programming'')]"

text \<open>
  The working backend with a search that follows the reference semantics over
  \<open>sample_docs\<close>; the total is the number of matching documents.
\<close>

definition catalog_env :: env where
  "catalog_env =
     sample_env\<lparr>search := (\<lambda>tr name b.
        case body_query b of
          None \<Rightarrow> Inr \<lparr>resp_total = 0, resp_hits = [], resp_took = 1\<rparr>
        | Some qy \<Rightarrow>
            Inr \<lparr>resp_total = int (length (matching_hits sample_rel sample_docs qy)),
                 resp_hits = matching_hits sample_rel sample_docs qy,
                 resp_took = 1\<rparr>)\<rparr>"

section \<open>What each method does, call by call\<close>

text \<open>
  The three public methods, with their \<^verbatim>\<open>try/except\<close> unfolded: which calls are issued,
  and what is returned, for each way the external calls can answer.
\<close>

lemma search_similar_cases:
  "search_similar ev h q k st tr =
     (case embed_query ev tr q of
        Inl e \<Rightarrow> (Inr [], tr @ [EmbedQuery q])
      | Inr v \<Rightarrow>
         (case search ev (tr @ [EmbedQuery q]) (index_name h) (search_similar_query q v k st) of
            Inl e \<Rightarrow> (Inr [], tr @ [EmbedQuery q, Search (index_name h) (search_similar_query q v k st)])
          | Inr resp \<Rightarrow> (Inr (sort_reverse res_score (map result_of_hit (resp_hits resp))),
               tr @ [EmbedQuery q, Search (index_name h) (search_similar_query q v k st)])))"
  by (simp add: search_similar_def search_similar_try_def Let_def split: sum.splits)

lemma insert_embeddings_cases:
  "insert_embeddings ev h contents mds tr =
     (case embed_documents ev tr contents of
        Inl e \<Rightarrow> (Inr False, tr @ [EmbedDocuments contents])
      | Inr embeddings \<Rightarrow>
         (case bulk ev (tr @ [EmbedDocuments contents])
                 (insert_embeddings_actions h contents embeddings mds) of
            Inl e \<Rightarrow> (Inr False, tr @ [EmbedDocuments contents,
                         BulkWrite (insert_embeddings_actions h contents embeddings mds)])
          | Inr sf \<Rightarrow>
             (case indices_refresh ev (tr @ [EmbedDocuments contents,
                       BulkWrite (insert_embeddings_actions h contents embeddings mds)])
                     (index_name h) of
                Inl e \<Rightarrow> (Inr False, tr @ [EmbedDocuments contents,
                         BulkWrite (insert_embeddings_actions h contents embeddings mds),
                         IndicesRefresh (index_name h)])
              | Inr u \<Rightarrow> (Inr True, tr @ [EmbedDocuments contents,
                         BulkWrite (insert_embeddings_actions h contents embeddings mds),
                         IndicesRefresh (index_name h)]))))"
  by (simp add: insert_embeddings_def insert_embeddings_try_def Let_def split: sum.splits)


section \<open>Bulk insert\<close>

text \<open>
  C1 (amended). The claim asks for partial-failure semantics: with one document whose
  embedding fails, the other \<open>n - 1\<close> are written and the failure is reported per id.
  \<^verbatim>\<open>insert_embeddings\<close> has no such mechanism: it embeds all contents with one batched call
  and returns a single boolean. What holds instead: whenever the embedding call raises,
  the only call issued is that embedding call (no bulk write, no refresh, so nothing is
  written) and the method returns \<^verbatim>\<open>False\<close> for the whole batch.
\<close>

theorem embedding_failure_aborts_batch:
  "embed_documents ev tr contents = Inl e \<Longrightarrow>
     insert_embeddings ev h contents mds tr = (Inr False, tr @ [EmbedDocuments contents])"
  by (simp add: insert_embeddings_cases)

theorem embedding_failure_aborts_batch_witness:
  "embed_documents sample_env [] [''a'', ''bad'', ''c''] = Inl (Exception ''embedding failed'')
   \<and> insert_embeddings sample_env sample_handler [''a'', ''bad'', ''c''] [[], [], []] []
       = (Inr False, [EmbedDocuments [''a'', ''bad'', ''c'']])"
proof -
  have h: "embed_documents sample_env [] [''a'', ''bad'', ''c'']
             = Inl (Exception ''embedding failed'')"
    by (simp add: sample_env_def sample_embed_def)
  show ?thesis
    using h embedding_failure_aborts_batch [OF h, of sample_handler "[[], [], []]"] by simp
qed

text \<open>
  The claim as stated fails: of three documents exactly the second cannot be embedded;
  the call returns \<^verbatim>\<open>False\<close> and hands no document to the bulk helper, where the claim
  promises two written documents and one reported failure.
\<close>

theorem one_failed_embedding_fails_whole_batch:
  "map isl (map sample_embed [''first document'', ''bad'', ''third document''])
       = [False, True, False]
   \<and> fst (insert_embeddings sample_env sample_handler
            [''first document'', ''bad'', ''third document'']
            [[(''source'', ''s1'')], [(''source'', ''s2'')], [(''source'', ''s3'')]] [])
       = Inr False
   \<and> concat (map bulk_actions (snd (insert_embeddings sample_env sample_handler
            [''first document'', ''bad'', ''third document'']
            [[(''source'', ''s1'')], [(''source'', ''s2'')], [(''source'', ''s3'')]] [])))
       = []"
  by (simp add: insert_embeddings_cases sample_env_def sample_embed_def)

text \<open>
  C10. A call of \<^verbatim>\<open>insert_embeddings\<close> that returns \<^verbatim>\<open>True\<close> has issued exactly three calls:
  the embedding call, the bulk write, and then the refresh of its index, each of which
  returned without raising. The refresh is the last call before the return and comes after
  the bulk write, so it covers every document of that write.
\<close>

theorem refresh_follows_bulk:
  assumes "insert_embeddings ev h contents mds tr = (Inr True, tr')"
  shows "\<exists>embeddings sf.
           embed_documents ev tr contents = Inr embeddings
         \<and> bulk ev (tr @ [EmbedDocuments contents])
               (insert_embeddings_actions h contents embeddings mds) = Inr sf
         \<and> indices_refresh ev
               (tr @ [EmbedDocuments contents,
                      BulkWrite (insert_embeddings_actions h contents embeddings mds)])
               (index_name h) = Inr ()
         \<and> tr' = tr @ [EmbedDocuments contents,
                        BulkWrite (insert_embeddings_actions h contents embeddings mds),
                        IndicesRefresh (index_name h)]"
  using assms
  by (auto simp: insert_embeddings_cases split: sum.splits)

theorem refresh_follows_bulk_witness:
  "insert_embeddings sample_env sample_handler [''a'', ''b''] [[], [(''k'', ''v'')]] []
     = (Inr True,
        [EmbedDocuments [''a'', ''b''],
         BulkWrite (insert_embeddings_actions sample_handler [''a'', ''b''] [[1], [1]]
                      [[], [(''k'', ''v'')]]),
         IndicesRefresh (index_name sample_handler)])"
proof -
  have e: "embed_documents sample_env [] [''a'', ''b''] = Inr [[1], [1]]"
    by (simp add: sample_env_def sample_embed_def)
  have "\<exists>tr'. insert_embeddings sample_env sample_handler [''a'', ''b''] [[], [(''k'', ''v'')]] []
           = (Inr True, tr')"
    by (simp add: insert_embeddings_cases sample_env_def sample_embed_def)
  then obtain tr' where
    h: "insert_embeddings sample_env sample_handler [''a'', ''b''] [[], [(''k'', ''v'')]] []
           = (Inr True, tr')" ..
  from refresh_follows_bulk [OF h] e show ?thesis
    unfolding h by auto
qed

section \<open>Search\<close>

text \<open>
  C7. In vector mode the request is a k-nearest-neighbour request with \<open>k = top_k\<close> and
  \<open>num_candidates = top_k * 10\<close>, so the candidate pool is \<open>top_k * C\<close> with \<open>C = 10\<close>; it
  carries the query embedding and no text query. This holds for every \<open>top_k\<close>, in
  particular for every \<open>top_k > 0\<close>.
\<close>

theorem vector_mode_knn_request:
  "\<exists>kc. body_knn (search_similar_query query_text query_embedding top_k ''vector'') = Some kc
      \<and> knn_k kc = top_k \<and> knn_num_candidates kc = top_k * 10
      \<and> knn_query_vector kc = query_embedding
      \<and> body_query (search_similar_query query_text query_embedding top_k ''vector'') = None"
  by (simp add: search_similar_query_def)

text \<open>
  C9. A \<^verbatim>\<open>search_type\<close> that is neither \<^verbatim>\<open>"vector"\<close> nor \<^verbatim>\<open>"bm25"\<close> takes the \<^verbatim>\<open>else\<close> branch
  and the hybrid query is what \<^verbatim>\<open>search_similar\<close> executes: the request built is the hybrid
  request (text match under \<^verbatim>\<open>should\<close> plus k-NN, both with boost 1.0); once the query is
  embedded, the calls issued are the embedding call and then the search call that carries
  exactly this hybrid request to the handler's index; when the backend answers, the
  returned list is the backend's hits of that request, sorted. The whole search behaves
  exactly as with \<^verbatim>\<open>"hybrid"\<close>, and the method returns a list; it does not raise and it does
  not reject the mode.
\<close>

theorem unrecognized_mode_runs_hybrid:
  assumes "st \<noteq> ''vector''" and "st \<noteq> ''bm25''"
  shows "search_similar_query q v k st =
           \<lparr>body_query = Some (Bool [] [Match ''content'' q ''nori_analyzer'' (Some 1.0)] []),
            body_knn = Some \<lparr>knn_field = ''embedding'', knn_query_vector = v,
                             knn_k = k, knn_num_candidates = k * 10, knn_boost = Some 1.0\<rparr>,
            body_size = Some k,
            body_source = [''content'', ''metadata'']\<rparr>
       \<and> search_similar ev h q k st tr = search_similar ev h q k ''hybrid'' tr
       \<and> (\<exists>rs. fst (search_similar ev h q k st tr) = Inr rs)
       \<and> (embed_query ev tr q = Inr v \<longrightarrow>
            snd (search_similar ev h q k st tr) =
              tr @ [EmbedQuery q,
                    Search (index_name h)
                      \<lparr>body_query =
                         Some (Bool [] [Match ''content'' q ''nori_analyzer'' (Some 1.0)] []),
                       body_knn = Some \<lparr>knn_field = ''embedding'', knn_query_vector = v,
                             knn_k = k, knn_num_candidates = k * 10, knn_boost = Some 1.0\<rparr>,
                       body_size = Some k,
                       body_source = [''content'', ''metadata'']\<rparr>])
       \<and> (embed_query ev tr q = Inr v
            \<and> search ev (tr @ [EmbedQuery q]) (index_name h)
                  \<lparr>body_query =
                     Some (Bool [] [Match ''content'' q ''nori_analyzer'' (Some 1.0)] []),
                   body_knn = Some \<lparr>knn_field = ''embedding'', knn_query_vector = v,
                         knn_k = k, knn_num_candidates = k * 10, knn_boost = Some 1.0\<rparr>,
                   body_size = Some k,
                   body_source = [''content'', ''metadata'']\<rparr> = Inr resp
            \<longrightarrow> fst (search_similar ev h q k st tr) =
                  Inr (sort_reverse res_score (map result_of_hit (resp_hits resp))))"
proof -
  let ?hybrid = "\<lparr>body_query =
                     Some (Bool [] [Match ''content'' q ''nori_analyzer'' (Some 1.0)] []),
                   body_knn = Some \<lparr>knn_field = ''embedding'', knn_query_vector = v,
                         knn_k = k, knn_num_candidates = k * 10, knn_boost = Some 1.0\<rparr>,
                   body_size = Some k,
                   body_source = [''content'', ''metadata'']\<rparr>"
  have q: "search_similar_query q w k st = search_similar_query q w k ''hybrid''" for w
    using assms by (simp add: search_similar_query_def)
  have built: "search_similar_query q v k st = ?hybrid"
    using assms by (simp add: search_similar_query_def)
  have same: "search_similar ev h q k st tr = search_similar ev h q k ''hybrid'' tr"
    by (simp add: search_similar_cases q cong: sum.case_cong)
  have returns: "\<exists>rs. fst (search_similar ev h q k st tr) = Inr rs"
    by (simp add: search_similar_cases split: sum.splits)
  have sent: "snd (search_similar ev h q k st tr) =
                tr @ [EmbedQuery q, Search (index_name h) ?hybrid]"
    if "embed_query ev tr q = Inr v"
    using that by (simp add: search_similar_cases built split: sum.splits)
  have answered: "fst (search_similar ev h q k st tr) =
                    Inr (sort_reverse res_score (map result_of_hit (resp_hits resp)))"
    if "embed_query ev tr q = Inr v"
      and "search ev (tr @ [EmbedQuery q]) (index_name h) ?hybrid = Inr resp"
    using that by (simp add: search_similar_cases built)
  from built same returns sent answered show ?thesis
    by blast
qed

theorem unrecognized_mode_runs_hybrid_witness:
  "search_similar sample_env sample_handler ''q'' 4 '''' []
     = search_similar sample_env sample_handler ''q'' 4 ''hybrid'' []
   \<and> search_similar_query ''q'' [1] 4 ''vectr'' = search_similar_query ''q'' [1] 4 ''hybrid''
   \<and> body_size (search_similar_query ''q'' [1] 4 ''vectr'') = Some 4
   \<and> snd (search_similar sample_env sample_handler ''q'' 4 '''' []) =
        [EmbedQuery ''q'',
         Search (index_name sample_handler)
           \<lparr>body_query =
              Some (Bool [] [Match ''content'' ''q'' ''nori_analyzer'' (Some 1.0)] []),
            body_knn = Some \<lparr>knn_field = ''embedding'', knn_query_vector = [1],
                  knn_k = 4, knn_num_candidates = 4 * 10, knn_boost = Some 1.0\<rparr>,
            body_size = Some 4,
            body_source = [''content'', ''metadata'']\<rparr>]
   \<and> fst (search_similar sample_env sample_handler ''q'' 4 '''' []) =
        Inr (sort_reverse res_score (map result_of_hit sample_hits))"
proof -
  let ?hybrid = "\<lparr>body_query =
              Some (Bool [] [Match ''content'' ''q'' ''nori_analyzer'' (Some 1.0)] []),
            body_knn = Some \<lparr>knn_field = ''embedding'', knn_query_vector = [1],
                  knn_k = 4, knn_num_candidates = 4 * 10, knn_boost = Some 1.0\<rparr>,
            body_size = Some 4,
            body_source = [''content'', ''metadata'']\<rparr>"
  let ?resp = "\<lparr>resp_total = 4, resp_hits = sample_hits, resp_took = 1\<rparr>"
  have a: "'''' \<noteq> ''vector''" and b: "'''' \<noteq> ''bm25''"
    and c: "''vectr'' \<noteq> ''vector''" and d: "''vectr'' \<noteq> ''bm25''"
    and e: "''hybrid'' \<noteq> ''vector''" and f: "''hybrid'' \<noteq> ''bm25''"
    by simp_all
  have emb: "embed_query sample_env [] ''q'' = Inr [1]"
    by (simp add: sample_env_def sample_embed_def)
  have srch: "search sample_env ([] @ [EmbedQuery ''q'']) (index_name sample_handler) ?hybrid
                = Inr ?resp"
    by (simp add: sample_env_def)
  note empty_mode = unrecognized_mode_runs_hybrid
      [OF a b, where q = "''q''" and v = "[1]" and k = 4 and ev = sample_env
         and h = sample_handler and tr = "[]" and resp = ?resp]
  note misspelt = unrecognized_mode_runs_hybrid
      [OF c d, where q = "''q''" and v = "[1]" and k = 4 and ev = sample_env
         and h = sample_handler and tr = "[]" and resp = ?resp]
  note hybrid = unrecognized_mode_runs_hybrid
      [OF e f, where q = "''q''" and v = "[1]" and k = 4 and ev = sample_env
         and h = sample_handler and tr = "[]" and resp = ?resp]
  from empty_mode have c1: "search_similar sample_env sample_handler ''q'' 4 '''' []
     = search_similar sample_env sample_handler ''q'' 4 ''hybrid'' []"
    by blast
  from misspelt hybrid have c2:
    "search_similar_query ''q'' [1] 4 ''vectr'' = search_similar_query ''q'' [1] 4 ''hybrid''"
    by simp
  from misspelt have c3: "body_size (search_similar_query ''q'' [1] 4 ''vectr'') = Some 4"
    by simp
  from empty_mode emb have
    "snd (search_similar sample_env sample_handler ''q'' 4 '''' []) =
       [] @ [EmbedQuery ''q'', Search (index_name sample_handler) ?hybrid]"
    by blast
  then have c4:
    "snd (search_similar sample_env sample_handler ''q'' 4 '''' []) =
       [EmbedQuery ''q'', Search (index_name sample_handler) ?hybrid]"
    by simp
  from empty_mode emb srch have
    "fst (search_similar sample_env sample_handler ''q'' 4 '''' []) =
        Inr (sort_reverse res_score (map result_of_hit (resp_hits ?resp)))"
    by blast
  then have c5:
    "fst (search_similar sample_env sample_handler ''q'' 4 '''' []) =
        Inr (sort_reverse res_score (map result_of_hit sample_hits))"
    by simp
  from c1 c2 c3 c4 c5 show ?thesis
    by blast
qed

text \<open>
  C2 (amended). The claim says that bm25 mode performs no embedding call and survives a
  failing embedding provider. \<^verbatim>\<open>search_similar\<close> embeds the query before it looks at
  \<^verbatim>\<open>search_type\<close>. What holds instead, in every mode: the first call is the embedding
  call; when it raises, no search is sent to the backend and the method returns the empty
  list (it raises in no mode). The bm25 request itself has no k-NN part and does not
  depend on the embedding.
\<close>

theorem embedding_called_in_every_mode:
  "(\<exists>rest. snd (search_similar ev h q k st tr) = tr @ EmbedQuery q # rest)
   \<and> (embed_query ev tr q = Inl e \<longrightarrow>
        search_similar ev h q k st tr = (Inr [], tr @ [EmbedQuery q]))
   \<and> body_knn (search_similar_query q v k ''bm25'') = None
   \<and> search_similar_query q v k ''bm25'' = search_similar_query q v' k ''bm25''"
  by (simp add: search_similar_cases search_similar_query_def split: sum.splits)

theorem embedding_called_in_every_mode_witness:
  "embed_query sample_env [] ''bad'' = Inl (Exception ''embedding failed'')
   \<and> search_similar sample_env sample_handler ''bad'' 3 ''vector'' []
       = (Inr [], [EmbedQuery ''bad''])
   \<and> search_similar sample_env sample_handler ''bad'' 3 ''bm25'' []
       = (Inr [], [EmbedQuery ''bad''])"
proof -
  have h: "embed_query sample_env [] ''bad'' = Inl (Exception ''embedding failed'')"
    by (simp add: sample_env_def sample_embed_def)
  from embedding_called_in_every_mode
         [of sample_env sample_handler "''bad''" 3 "''vector''" "[]"
             "Exception ''embedding failed''" "[]" "[]"]
       embedding_called_in_every_mode
         [of sample_env sample_handler "''bad''" 3 "''bm25''" "[]"
             "Exception ''embedding failed''" "[]" "[]"]
       h
  show ?thesis by simp
qed

text \<open>
  The claim as stated fails: in bm25 mode, with a provider that cannot embed the query and
  a backend that would answer the text-match request with four hits, the method calls the
  provider, never reaches the backend, and returns the empty list.
\<close>

theorem bm25_mode_embeds_and_fails_with_provider:
  "search_similar sample_env sample_handler ''bad'' 5 ''bm25'' [] = (Inr [], [EmbedQuery ''bad''])
   \<and> embed_query sample_env [] ''bad'' = Inl (Exception ''embedding failed'')
   \<and> search sample_env [EmbedQuery ''bad''] (index_name sample_handler)
        (search_similar_query ''bad'' [] 5 ''bm25'')
       = Inr \<lparr>resp_total = 4, resp_hits = sample_hits, resp_took = 1\<rparr>"
  by (simp add: search_similar_cases sample_env_def sample_embed_def)

subsection \<open>Order of the results\<close>

lemma sort_reverse_sorted:
  "sorted_wrt (\<lambda>a b. key b \<le> key a) (sort_reverse key xs)"
proof -
  have "sorted (map key (sort_key key (rev xs)))" by simp
  then have "sorted_wrt (\<lambda>a b. key a \<le> key b) (sort_key key (rev xs))"
    by (simp add: sorted_wrt_map)
  then show ?thesis
    by (simp add: sort_reverse_def sorted_wrt_rev)
qed

lemma sort_reverse_adjacent:
  "Suc i < length (sort_reverse key xs) \<Longrightarrow>
     key (sort_reverse key xs ! Suc i) \<le> key (sort_reverse key xs ! i)"
  using sort_reverse_sorted [of key xs]
  by (simp add: sorted_wrt_iff_nth_less)

lemma sort_reverse_stable:
  "filter (\<lambda>y. key y = s) (sort_reverse key xs) = filter (\<lambda>y. key y = s) xs"
  by (simp add: sort_reverse_def rev_filter [symmetric] sort_key_stable)

text \<open>
  C5. In every list that \<^verbatim>\<open>search_similar\<close> returns, each entry's score is at least the
  score of the next one. When the backend answered, the entries of any one score stand in
  the order in which the backend returned them: the sort is stable. (When a call raised,
  the returned list is empty.)
\<close>

theorem search_results_sorted_stable:
  assumes "search_similar ev h q k st tr = (Inr rs, tr')"
  shows "(\<forall>i. Suc i < length rs \<longrightarrow> res_score (rs ! Suc i) \<le> res_score (rs ! i))
     \<and> (\<forall>v resp s. embed_query ev tr q = Inr v
           \<longrightarrow> search ev (tr @ [EmbedQuery q]) (index_name h) (search_similar_query q v k st) = Inr resp
           \<longrightarrow> filter (\<lambda>r. res_score r = s) rs
               = filter (\<lambda>r. res_score r = s) (map result_of_hit (resp_hits resp)))"
  using assms
  by (auto simp: search_similar_cases sort_reverse_adjacent sort_reverse_stable split: sum.splits)

theorem search_results_sorted_stable_witness:
  "map res_id (sort_reverse res_score (map result_of_hit sample_hits)) = [''b'', ''d'', ''a'', ''c'']
   \<and> fst (search_similar sample_env sample_handler ''q'' 4 ''bm25'' [])
       = Inr (sort_reverse res_score (map result_of_hit sample_hits))
   \<and> res_score (sort_reverse res_score (map result_of_hit sample_hits) ! Suc 1)
       \<le> res_score (sort_reverse res_score (map result_of_hit sample_hits) ! 1)
   \<and> filter (\<lambda>r. res_score r = 1) (sort_reverse res_score (map result_of_hit sample_hits))
       = filter (\<lambda>r. res_score r = 1) (map result_of_hit sample_hits)"
proof -
  let ?rs = "sort_reverse res_score (map result_of_hit sample_hits)"
  let ?tr = "[EmbedQuery ''q'', Search (index_name sample_handler)
               (search_similar_query ''q'' [1] 4 ''bm25'')]"
  have ids: "map res_id ?rs = [''b'', ''d'', ''a'', ''c'']"
    by (simp add: sort_reverse_def sample_hits_def result_of_hit_def)
  have e: "embed_query sample_env [] ''q'' = Inr [1]"
    by (simp add: sample_env_def sample_embed_def)
  have s: "search sample_env ([] @ [EmbedQuery ''q'']) (index_name sample_handler)
             (search_similar_query ''q'' [1] 4 ''bm25'')
           = Inr \<lparr>resp_total = 4, resp_hits = sample_hits, resp_took = 1\<rparr>"
    by (simp add: sample_env_def)
  have h: "search_similar sample_env sample_handler ''q'' 4 ''bm25'' [] = (Inr ?rs, ?tr)"
    by (simp add: search_similar_cases sample_env_def sample_embed_def)
  have len: "Suc 1 < length ?rs"
    by (simp add: sort_reverse_def sample_hits_def)
  from search_results_sorted_stable [OF h] e s len ids h show ?thesis
    by simp
qed

section \<open>Errors\<close>




section \<open>Index setup\<close>

text \<open>
  C6. \<^verbatim>\<open>_setup_index\<close> is idempotent. When the backend reports the index as existing, the
  method returns successfully and the existence check is the only call it issues: nothing
  reads, changes, re-creates or deletes the index. When the backend reports it as absent,
  the method issues the one creation call. A creation call is issued exactly when the
  check answered "absent". So a second run, after a successful first one that left the index
  in existence, succeeds and adds nothing but its existence check.
\<close>

theorem setup_index_idempotent:
  "(indices_exists ev tr (index_name h) = Inr True \<longrightarrow>
      setup_index ev h tr = (Inr (), tr @ [IndicesExists (index_name h)]))
   \<and> (indices_exists ev tr (index_name h) = Inr False \<longrightarrow>
      snd (setup_index ev h tr) =
        tr @ [IndicesExists (index_name h),
              IndicesCreate (index_name h) create_index_settings (create_index_mappings h)])
   \<and> (list_ex (is_create_of (index_name h)) (drop (length tr) (snd (setup_index ev h tr)))
        \<longleftrightarrow> indices_exists ev tr (index_name h) = Inr False)
   \<and> (setup_index ev h tr = (Inr (), tr1) \<and> indices_exists ev tr1 (index_name h) = Inr True \<longrightarrow>
      setup_index ev h tr1 = (Inr (), tr1 @ [IndicesExists (index_name h)]))"
  by (auto simp: setup_index_def create_index_def Let_def split: sum.splits)

theorem setup_index_idempotent_witness:
  "setup_index sample_env sample_handler []
     = (Inr (),
        [IndicesExists (index_name sample_handler),
         IndicesCreate (index_name sample_handler) create_index_settings
           (create_index_mappings sample_handler)])
   \<and> setup_index sample_env sample_handler
        [IndicesExists (index_name sample_handler),
         IndicesCreate (index_name sample_handler) create_index_settings
           (create_index_mappings sample_handler)]
     = (Inr (),
        [IndicesExists (index_name sample_handler),
         IndicesCreate (index_name sample_handler) create_index_settings
           (create_index_mappings sample_handler),
         IndicesExists (index_name sample_handler)])"
proof -
  let ?tr1 = "[IndicesExists (index_name sample_handler),
         IndicesCreate (index_name sample_handler) create_index_settings
           (create_index_mappings sample_handler)]"
  have first: "setup_index sample_env sample_handler [] = (Inr (), ?tr1)"
    by (simp add: setup_index_def create_index_def sample_env_def Let_def)
  have ex: "indices_exists sample_env ?tr1 (index_name sample_handler) = Inr True"
    by (simp add: sample_env_def)
  from setup_index_idempotent [of sample_env "[]" sample_handler ?tr1] first ex
  show ?thesis by simp
qed

text \<open>
  C3. The claim says that the analyzer of the index tokenizes in \<^verbatim>\<open>mixed\<close> decompound mode.
  The settings of \<^verbatim>\<open>_create_index\<close> do declare such a tokenizer, under the name
  \<^verbatim>\<open>nori_user_dict\<close>. But the analyzer bound to the \<^verbatim>\<open>content\<close> field, \<^verbatim>\<open>nori_analyzer\<close>, names
  the tokenizer \<^verbatim>\<open>nori_tokenizer\<close>, which the settings do not declare: it is the backend's
  built-in tokenizer with its default options, and the decompound mode written in the
  settings does not reach it.
\<close>

theorem analyzer_does_not_use_mixed_tokenizer:
  "field_analyzer (create_index_mappings h) ''content'' = Some ''nori_analyzer''
   \<and> map_option an_tokenizer
        (map_of (analyzer (settings_analysis create_index_settings)) ''nori_analyzer'')
        = Some ''nori_tokenizer''
   \<and> map_of (tokenizer (settings_analysis create_index_settings)) ''nori_tokenizer'' = None
   \<and> analyzer_decompound_mode create_index_settings ''nori_analyzer'' = None
   \<and> map_option tk_decompound_mode
        (map_of (tokenizer (settings_analysis create_index_settings)) ''nori_user_dict'')
        = Some (Some ''mixed'')"
  by (simp add: field_analyzer_def create_index_mappings_def create_index_settings_def
      analyzer_decompound_mode_def analyzer_tokenizer_def_def)

section \<open>The category filter of the search endpoint\<close>

lemma parse_hits_category:
  "parse_hits hts = Inr rs \<Longrightarrow> map sr_category rs = map (\<lambda>ht. src_category (hit_source ht)) hts"
  by (induction hts arbitrary: rs) (auto split: option.splits sum.splits)

lemma matching_hits_filter:
  assumes "c \<noteq> []"
  shows "matching_hits rel docs
           (search_documents_query \<lparr>sq_query = q, sq_size = n, sq_category = Some c\<rparr>)
       = filter (\<lambda>ht. src_category (hit_source ht) = Some c)
           (matching_hits rel docs
              (search_documents_query \<lparr>sq_query = q, sq_size = n, sq_category = None\<rparr>))"
  using assms
  by (induction docs)
     (auto simp: matching_hits_def search_documents_query_def query_matches_def
        query_score_def filter_matches_def keyword_value_def)

lemma search_documents_categories:
  assumes "search ev tr INDEX_NAME (search_documents_body sq) = Inr resp"
    and "search_documents ev sq tr = (Inr out, tr')"
  shows "map sr_category (results out) = map (\<lambda>ht. src_category (hit_source ht)) (resp_hits resp)"
  using assms
  by (auto simp: search_documents_def Let_def parse_hits_category split: sum.splits)

text \<open>
  C8 (amended). \<^verbatim>\<open>search_documents\<close> adds the filter under \<^verbatim>\<open>if search_query.category:\<close>, which
  is false for the empty string too, so the claim holds for a category that is a non-empty
  string. For such a category \<open>c\<close>: the request carries \<^verbatim>\<open>{"term": {"category": c}}\<close> in the
  \<^verbatim>\<open>filter\<close> list of the \<^verbatim>\<open>bool\<close> query and is otherwise the request without a category; under
  the reference semantics its hits are exactly the hits of the request without a category
  whose category is \<open>c\<close>, each with the same score; and when the backend answers with hits
  of the request, every result that \<^verbatim>\<open>search_documents\<close> returns has category \<open>c\<close>.
\<close>

theorem category_filter_membership_only:
  assumes "c \<noteq> []"
  shows "search_documents_query \<lparr>sq_query = q, sq_size = n, sq_category = Some c\<rparr>
           = Bool [MultiMatch q [''title^2'', ''content''] ''best_fields'' ''AUTO''] []
                  [Term ''category'' c]
     \<and> search_documents_query \<lparr>sq_query = q, sq_size = n, sq_category = None\<rparr>
           = Bool [MultiMatch q [''title^2'', ''content''] ''best_fields'' ''AUTO''] [] []
     \<and> matching_hits rel docs
           (search_documents_query \<lparr>sq_query = q, sq_size = n, sq_category = Some c\<rparr>)
         = filter (\<lambda>ht. src_category (hit_source ht) = Some c)
             (matching_hits rel docs
                (search_documents_query \<lparr>sq_query = q, sq_size = n, sq_category = None\<rparr>))
     \<and> (search ev tr INDEX_NAME
             (search_documents_body \<lparr>sq_query = q, sq_size = n, sq_category = Some c\<rparr>) = Inr resp
         \<and> set (resp_hits resp) \<subseteq> set (matching_hits rel docs
               (search_documents_query \<lparr>sq_query = q, sq_size = n, sq_category = Some c\<rparr>))
         \<and> search_documents ev \<lparr>sq_query = q, sq_size = n, sq_category = Some c\<rparr> tr = (Inr out, tr')
         \<longrightarrow> (\<forall>r \<in> set (results out). sr_category r = Some c))"
proof -
  let ?sq = "\<lparr>sq_query = q, sq_size = n, sq_category = Some c\<rparr>"
  have with_filter: "search_documents_query ?sq
           = Bool [MultiMatch q [''title^2'', ''content''] ''best_fields'' ''AUTO''] []
                  [Term ''category'' c]"
    using assms by (simp add: search_documents_query_def)
  have without_filter: "search_documents_query \<lparr>sq_query = q, sq_size = n, sq_category = None\<rparr>
           = Bool [MultiMatch q [''title^2'', ''content''] ''best_fields'' ''AUTO''] [] []"
    by (simp add: search_documents_query_def)
  have flt: "matching_hits rel docs (search_documents_query ?sq)
         = filter (\<lambda>ht. src_category (hit_source ht) = Some c)
             (matching_hits rel docs
                (search_documents_query \<lparr>sq_query = q, sq_size = n, sq_category = None\<rparr>))"
    by (rule matching_hits_filter [OF assms])
  have returned: "\<forall>r \<in> set (results out). sr_category r = Some c"
    if s: "search ev tr INDEX_NAME (search_documents_body ?sq) = Inr resp"
      and sub: "set (resp_hits resp) \<subseteq> set (matching_hits rel docs (search_documents_query ?sq))"
      and out: "search_documents ev ?sq tr = (Inr out, tr')"
  proof -
    have "\<forall>ht \<in> set (resp_hits resp). src_category (hit_source ht) = Some c"
      using sub flt by auto
    then have "\<forall>x \<in> set (map (\<lambda>ht. src_category (hit_source ht)) (resp_hits resp)). x = Some c"
      by simp
    then have "\<forall>x \<in> set (map sr_category (results out)). x = Some c"
      using search_documents_categories [OF s out] by simp
    then show ?thesis by simp
  qed
  from with_filter without_filter flt returned show ?thesis
    by blast
qed

theorem category_filter_membership_only_witness:
  "''programming'' \<noteq> []
   \<and> search_documents catalog_env
        \<lparr>sq_query = ''python'', sq_size = Some 10, sq_category = Some ''programming''\<rparr> []
       = (Inr \<lparr>total = 1,
               results = [\<lparr>sr_id = ''doc1'', sr_title = ''python'', sr_content = ''python'',
                           sr_category = Some ''programming'', sr_score = 3\<rparr>],
               took = 1\<rparr>,
          [Search INDEX_NAME (search_documents_body
             \<lparr>sq_query = ''python'', sq_size = Some 10, sq_category = Some ''programming''\<rparr>)])
   \<and> map hit_id (matching_hits sample_rel sample_docs
        (search_documents_query
           \<lparr>sq_query = ''python'', sq_size = Some 10, sq_category = None\<rparr>))
       = [''doc1'', ''doc4'']
   \<and> matching_hits sample_rel sample_docs
        (search_documents_query
           \<lparr>sq_query = ''python'', sq_size = Some 10, sq_category = Some ''programming''\<rparr>)
       = filter (\<lambda>ht. src_category (hit_source ht) = Some ''programming'')
           (matching_hits sample_rel sample_docs
              (search_documents_query
                 \<lparr>sq_query = ''python'', sq_size = Some 10, sq_category = None\<rparr>))
   \<and> list_all (\<lambda>r. sr_category r = Some ''programming'')
        [\<lparr>sr_id = ''doc1'', sr_title = ''python'', sr_content = ''python'',
          sr_category = Some ''programming'', sr_score = 3\<rparr>]"
proof -
  let ?sq = "\<lparr>sq_query = ''python'', sq_size = Some 10, sq_category = Some ''programming''\<rparr>"
  let ?hits = "matching_hits sample_rel sample_docs (search_documents_query ?sq)"
  let ?resp = "\<lparr>resp_total = int (length ?hits), resp_hits = ?hits, resp_took = 1\<rparr>"
  let ?rs = "[\<lparr>sr_id = ''doc1'', sr_title = ''python'', sr_content = ''python'',
               sr_category = Some ''programming'', sr_score = 3\<rparr>]"
  let ?out = "\<lparr>total = 1, results = ?rs, took = 1\<rparr>"
  let ?tr = "[Search INDEX_NAME (search_documents_body ?sq)]"
  have ne: "''programming'' \<noteq> []" by simp
  have ids: "map hit_id (matching_hits sample_rel sample_docs
        (search_documents_query
           \<lparr>sq_query = ''python'', sq_size = Some 10, sq_category = None\<rparr>))
       = [''doc1'', ''doc4'']"
    by (simp add: search_documents_query_def matching_hits_def sample_docs_def sample_source_def
        query_matches_def query_score_def clause_score_def)
  have hits: "?hits = [\<lparr>hit_id = ''doc1'', hit_score = 3,
                         hit_source = sample_source ''python'' ''programming''\<rparr>]"
    by (simp add: search_documents_query_def matching_hits_def sample_docs_def sample_source_def
        query_matches_def query_score_def clause_score_def filter_matches_def keyword_value_def)
  have s: "search catalog_env [] INDEX_NAME (search_documents_body ?sq) = Inr ?resp"
    by (simp add: catalog_env_def search_documents_body_def)
  have sub: "set (resp_hits ?resp) \<subseteq> set ?hits"
    by simp
  have out: "search_documents catalog_env ?sq [] = (Inr ?out, ?tr)"
    by (simp add: search_documents_def s hits sample_source_def)
  note inst = category_filter_membership_only
         [OF ne, where q = "''python''" and n = "Some 10" and rel = sample_rel
            and docs = sample_docs and ev = catalog_env and tr = "[]"
            and resp = ?resp and out = ?out and tr' = ?tr]
  from inst have flt: "?hits
       = filter (\<lambda>ht. src_category (hit_source ht) = Some ''programming'')
           (matching_hits sample_rel sample_docs
              (search_documents_query
                 \<lparr>sq_query = ''python'', sq_size = Some 10, sq_category = None\<rparr>))"
    by blast
  from inst s sub out have "\<forall>r \<in> set (results ?out). sr_category r = Some ''programming''"
    by blast
  then have cats: "list_all (\<lambda>r. sr_category r = Some ''programming'') ?rs"
    by (simp add: list_all_iff)
  from ne out ids flt cats show ?thesis
    by blast
qed

text \<open>
  The claim as stated fails for the empty string: a request with \<^verbatim>\<open>category = ""\<close> gets no
  filter clause, and the hits have the categories of the stored documents, not the
  category that the request gave.
\<close>

theorem empty_category_filter_is_ignored:
  "search_documents_query \<lparr>sq_query = ''python'', sq_size = Some 10, sq_category = Some ''''\<rparr>
      = Bool [MultiMatch ''python'' [''title^2'', ''content''] ''best_fields'' ''AUTO''] [] []
   \<and> map hit_id (matching_hits sample_rel sample_docs
        (search_documents_query \<lparr>sq_query = ''python'', sq_size = Some 10, sq_category = Some ''''\<rparr>))
      = [''doc1'', ''doc4'']
   \<and> map src_category (map hit_source (matching_hits sample_rel sample_docs
        (search_documents_query \<lparr>sq_query = ''python'', sq_size = Some 10, sq_category = Some ''''\<rparr>)))
      = [Some ''programming'', Some ''ai'']"
  by (simp add: search_documents_query_def matching_hits_def sample_docs_def sample_source_def
      query_matches_def query_score_def clause_score_def)

end
